theory Spec2Isabelle
  imports Complex_Main "HOL-Library.Multiset" "HOL-Library.List_Lexorder" "HOL-Library.Char_ord"
begin

section \<open>Python values, errors and helpers\<close>

text \<open>
  Exceptions of the Python sources are values of \<open>py_error\<close>; a function that can raise
  returns \<open>py_error + 'a\<close> with \<open>Inl\<close> for the exception.
\<close>

datatype py_error =
    KeyError string
  | FileNotFoundError string
  | JSONDecodeError
  | ZeroDivisionError
  | ValueError
  | TemplateAssertionError string
  | GithubException string

text \<open>Python's slice \<open>xs[:n]\<close>: a negative \<open>n\<close> counts from the end.\<close>

definition py_take :: "int \<Rightarrow> 'a list \<Rightarrow> 'a list" where
  "py_take n xs = (if 0 \<le> n then take (nat n) xs else take (length xs - nat (- n)) xs)"

text \<open>Python's \<open>a / b\<close> on integers; the float result is kept as the exact quotient.\<close>

definition py_truediv :: "int \<Rightarrow> int \<Rightarrow> py_error + rat" where
  "py_truediv a b = (if b = 0 then Inl ZeroDivisionError else Inr (of_int a / of_int b))"

text \<open>
  \<open>sorted(xs, key=k, reverse=True)\<close>: Python's sort is stable, and with \<open>reverse=True\<close>
  elements with equal keys keep their original order.
\<close>

definition sorted_reverse :: "('a \<Rightarrow> int) \<Rightarrow> 'a list \<Rightarrow> 'a list" where
  "sorted_reverse k xs = sort_key (\<lambda>x. - k x) xs"

section \<open>Data model: the snapshots\<close>

text \<open>
  One element of \<open>repos_raw_<date>.json\<close>, as \<open>collect_organization_repos\<close> writes it
  (the fields the summary reads). \<open>size\<close> is named \<open>size_r\<close> here.
\<close>

record repo =
  organization :: string
  name :: string
  full_name :: string
  stars :: int
  forks :: int
  open_issues :: int
  language :: "string option"
  size_r :: int
  updated_at :: "string option"
  archived :: bool
  has_wiki :: bool
  has_pages :: bool
  has_issues :: bool
  license :: "string option"
  topics :: "string list"

text \<open>One contributor of one repository, and one element of \<open>contributions_<date>.json\<close>.\<close>

record contributor =
  login :: string
  contributions :: int
  avatar_url :: string
  html_url :: string

record repo_contribution =
  repo_full_name :: string
  total_contributors :: int
  contributors :: "contributor list"

section \<open>The pandas operations used by the summary\<close>

text \<open>
  \<open>Series.unique()\<close>: the distinct values in order of first appearance.
\<close>

primrec unique :: "'a list \<Rightarrow> 'a list" where
  "unique [] = []"
| "unique (x # xs) = x # removeAll x (unique xs)"

text \<open>\<open>Series.dropna()\<close> on a column with nulls.\<close>

definition dropna :: "'a option list \<Rightarrow> 'a list" where
  "dropna col = List.map_filter id col"

text \<open>
  \<open>Series.value_counts()\<close> with its defaults \<open>sort=True, dropna=True\<close>: nulls are
  left out, every distinct remaining value gets its number of occurrences, and the
  buckets are ordered by descending count (equal counts in order of first appearance).
\<close>

definition value_counts :: "'a option list \<Rightarrow> ('a \<times> nat) list" where
  "value_counts col =
     (let vals = dropna col
      in sorted_reverse (\<lambda>(v, c). int c) (map (\<lambda>v. (v, count_list vals v)) (unique vals)))"

text \<open>\<open>.head(n)\<close>.\<close>

definition head :: "nat \<Rightarrow> 'a list \<Rightarrow> 'a list" where
  "head n xs = take n xs"

text \<open>
  \<open>DataFrame.nlargest(n, column)\<close> with the default \<open>keep='first'\<close>: the rows ordered by
  descending value of the one column, rows with equal values in their original order,
  cut to the first \<open>n\<close>.
\<close>

definition nlargest :: "nat \<Rightarrow> ('a \<Rightarrow> int) \<Rightarrow> 'a list \<Rightarrow> 'a list" where
  "nlargest n col rows = take n (sorted_reverse col rows)"

text \<open>\<open>Series.idxmax()\<close> on a non-empty column: the first row holding the maximum.\<close>

fun idxmax :: "('a \<Rightarrow> int) \<Rightarrow> 'a \<Rightarrow> 'a list \<Rightarrow> 'a" where
  "idxmax col best [] = best"
| "idxmax col best (r # rs) = (if col best < col r then idxmax col r rs else idxmax col best rs)"

section \<open>The summary report\<close>

text \<open>
  One row of \<open>groupby('organization').agg(...)\<close>. The two \<open>mean\<close> columns are floats
  rounded to two decimals and are not part of this model.
\<close>

record org_row =
  name_count :: nat
  stars_sum :: int
  stars_max :: int
  forks_sum :: int
  forks_max :: int
  open_issues_sum :: int

text \<open>The columns \<open>['full_name', 'stars', 'forks', 'language', 'organization']\<close> of a row.\<close>

record ranking_row =
  rk_full_name :: string
  rk_stars :: int
  rk_forks :: int
  rk_language :: "string option"
  rk_organization :: string

definition ranking_columns :: "repo \<Rightarrow> ranking_row" where
  "ranking_columns r =
     \<lparr>rk_full_name = full_name r, rk_stars = stars r, rk_forks = forks r,
      rk_language = language r, rk_organization = organization r\<rparr>"

record top_contributor =
  tc_login :: string
  tc_total_contributions :: int
  tc_repos_contributed :: int
  tc_avatar_url :: string
  tc_html_url :: string

record contribution_analysis =
  repositories_analyzed :: nat
  ca_total_contributors :: int
  average_contributors_per_repo :: rat
  top_contributors :: "top_contributor list"

text \<open>
  The report dictionary, its nested dictionaries flattened. A key that the code adds
  only sometimes (\<open>contribution_analysis\<close>) is an option: \<open>None\<close> is the absent key.
  The timestamp and the float-valued means and medians are not part of this model.
\<close>

record summary =
  total_repositories :: nat
  total_organizations :: nat
  organizations :: "string list"
  total_stars :: int
  total_forks :: int
  total_open_issues :: int
  organization_breakdown :: "(string \<times> org_row) list"
  top_languages :: "(string \<times> nat) list"
  total_languages :: nat
  repositories_with_language :: nat
  top_starred_repositories :: "ranking_row list"
  top_forked_repositories :: "ranking_row list"
  license_distribution :: "(string \<times> nat) list"
  repositories_with_license :: nat
  repositories_without_license :: nat
  total_size_kb :: int
  largest_repo :: string
  recently_updated :: nat
  with_issues_enabled :: nat
  with_wiki_enabled :: nat
  with_pages_enabled :: nat
  archived_repositories :: nat
  contribution_analysis_s :: "contribution_analysis option"

subsection \<open>Repository statistics\<close>

text \<open>\<open>groupby('organization')\<close>: one group per distinct key, keys in sorted order.\<close>

definition group_keys :: "repo list \<Rightarrow> string list" where
  "group_keys repo_df = sort (unique (map organization repo_df))"

definition agg :: "repo list \<Rightarrow> org_row" where
  "agg g =
     \<lparr>name_count = length g,
      stars_sum = sum_list (map stars g),
      stars_max = fold max (map stars g) (stars (hd g)),
      forks_sum = sum_list (map forks g),
      forks_max = fold max (map forks g) (forks (hd g)),
      open_issues_sum = sum_list (map open_issues g)\<rparr>"

definition org_stats :: "repo list \<Rightarrow> (string \<times> org_row) list" where
  "org_stats repo_df =
     map (\<lambda>k. (k, agg (filter (\<lambda>r. organization r = k) repo_df))) (group_keys repo_df)"

definition language_counts :: "repo list \<Rightarrow> (string \<times> nat) list" where
  "language_counts repo_df = head 15 (value_counts (map language repo_df))"

definition license_counts :: "repo list \<Rightarrow> (string \<times> nat) list" where
  "license_counts repo_df = head 10 (value_counts (map license repo_df))"

definition top_starred :: "repo list \<Rightarrow> ranking_row list" where
  "top_starred repo_df = map ranking_columns (nlargest 25 stars repo_df)"

definition top_forked :: "repo list \<Rightarrow> ranking_row list" where
  "top_forked repo_df = map ranking_columns (nlargest 25 forks repo_df)"

text \<open>
  The dictionary built before the contributor part; \<open>repo_df\<close> is non-empty here
  (an empty frame has no column \<open>organization\<close>, see \<open>generate_summary_report\<close>).
\<close>

definition base_summary :: "repo list \<Rightarrow> summary" where
  "base_summary repo_df =
     \<lparr>total_repositories = length repo_df,
      total_organizations = length (unique (map organization repo_df)),
      organizations = sort (unique (map organization repo_df)),
      total_stars = sum_list (map stars repo_df),
      total_forks = sum_list (map forks repo_df),
      total_open_issues = sum_list (map open_issues repo_df),
      organization_breakdown = org_stats repo_df,
      top_languages = language_counts repo_df,
      total_languages = length (unique (dropna (map language repo_df))),
      repositories_with_language = length (filter (\<lambda>r. language r \<noteq> None) repo_df),
      top_starred_repositories = top_starred repo_df,
      top_forked_repositories = top_forked repo_df,
      license_distribution = license_counts repo_df,
      repositories_with_license = length (filter (\<lambda>r. license r \<noteq> None) repo_df),
      repositories_without_license = length (filter (\<lambda>r. license r = None) repo_df),
      total_size_kb = sum_list (map size_r repo_df),
      largest_repo = full_name (idxmax size_r (hd repo_df) (tl repo_df)),
      recently_updated = length (filter (\<lambda>r. updated_at r \<noteq> None) repo_df),
      with_issues_enabled = length (filter has_issues repo_df),
      with_wiki_enabled = length (filter has_wiki repo_df),
      with_pages_enabled = length (filter has_pages repo_df),
      archived_repositories = length (filter archived repo_df),
      contribution_analysis_s = None\<rparr>"

subsection \<open>Contributor statistics\<close>

text \<open>
  \<open>contributor_activity\<close> is a Python dict, which keeps its keys in insertion order:
  an association list with distinct keys, new keys appended.
\<close>

record activity =
  total_contributions :: int
  repos_contributed :: int
  act_avatar_url :: string
  act_html_url :: string

text \<open>The body of the inner loop, for one contributor entry.\<close>

definition record_contributor ::
    "(string \<times> activity) list \<Rightarrow> contributor \<Rightarrow> (string \<times> activity) list" where
  "record_contributor act c =
     (let act1 = (if login c \<notin> fst ` set act
                  then act @ [(login c, \<lparr>total_contributions = 0, repos_contributed = 0,
                                          act_avatar_url = avatar_url c,
                                          act_html_url = html_url c\<rparr>)]
                  else act)
      in map (\<lambda>(k, a). if k = login c
                        then (k, a\<lparr>total_contributions := total_contributions a + contributions c,
                                  repos_contributed := repos_contributed a + 1\<rparr>)
                        else (k, a)) act1)"

text \<open>The two nested loops over the repositories and their contributors.\<close>

definition contributor_activity :: "repo_contribution list \<Rightarrow> (string \<times> activity) list" where
  "contributor_activity contrib_data =
     foldl (\<lambda>act repo. foldl record_contributor act (contributors repo)) [] contrib_data"

definition sorted_contributors :: "repo_contribution list \<Rightarrow> (string \<times> activity) list" where
  "sorted_contributors contrib_data =
     sorted_reverse (\<lambda>(l, a). total_contributions a) (contributor_activity contrib_data)"

text \<open>One dictionary of the list comprehension behind \<open>'top_contributors'\<close>.\<close>

definition top_contributor_entry :: "string \<times> activity \<Rightarrow> top_contributor" where
  "top_contributor_entry = (\<lambda>(l, a).
     \<lparr>tc_login = l, tc_total_contributions = total_contributions a,
      tc_repos_contributed = repos_contributed a,
      tc_avatar_url = act_avatar_url a, tc_html_url = act_html_url a\<rparr>)"

definition top_contributors_of :: "repo_contribution list \<Rightarrow> top_contributor list" where
  "top_contributors_of contrib_data =
     map top_contributor_entry (py_take 25 (sorted_contributors contrib_data))"

text \<open>The block under \<open>if contrib_data:\<close>.\<close>

definition analyse_contributions :: "repo_contribution list \<Rightarrow> py_error + contribution_analysis" where
  "analyse_contributions contrib_data =
     (let total = sum_list (map total_contributors contrib_data)
      in case py_truediv total (int (length contrib_data)) of
           Inl e \<Rightarrow> Inl e
         | Inr avg \<Rightarrow>
             Inr \<lparr>repositories_analyzed = length contrib_data,
                  ca_total_contributors = total,
                  average_contributors_per_repo = avg,
                  top_contributors = top_contributors_of contrib_data\<rparr>)"

subsection \<open>Files and the report function\<close>

text \<open>
  The files the report reads: a path holds nothing, a file that is not JSON, or the
  parsed JSON array of the expected shape.
\<close>

datatype 'a json_file = NotJson | Json 'a

record files =
  repo_files :: "string \<Rightarrow> repo list json_file option"
  contrib_files :: "string \<Rightarrow> repo_contribution list json_file option"

definition load_json :: "(string \<Rightarrow> 'a json_file option) \<Rightarrow> string \<Rightarrow> py_error + 'a" where
  "load_json dir path =
     (case dir path of
        None \<Rightarrow> Inl (FileNotFoundError path)
      | Some NotJson \<Rightarrow> Inl JSONDecodeError
      | Some (Json v) \<Rightarrow> Inr v)"

text \<open>
  \<open>generate_summary_report(repo_file, contrib_file)\<close>. On an empty repository array
  the frame has no columns and \<open>repo_df['organization']\<close> raises \<open>KeyError\<close>.
  The guard \<open>contrib_file and Path(contrib_file).exists()\<close> is false for \<open>None\<close>, for the
  empty string and for a path that holds no file.
\<close>

definition generate_summary_report :: "files \<Rightarrow> string \<Rightarrow> string option \<Rightarrow> py_error + summary" where
  "generate_summary_report fs repo_file contrib_file =
     (case load_json (repo_files fs) repo_file of
        Inl e \<Rightarrow> Inl e
      | Inr repos_data \<Rightarrow>
          if repos_data = [] then Inl (KeyError ''organization'')
          else
            let summary = base_summary repos_data
            in (case contrib_file of
                  None \<Rightarrow> Inr summary
                | Some p \<Rightarrow>
                    if p \<noteq> [] \<and> contrib_files fs p \<noteq> None
                    then (case load_json (contrib_files fs) p of
                            Inl e \<Rightarrow> Inl e
                          | Inr contrib_data \<Rightarrow>
                              if contrib_data \<noteq> []
                              then (case analyse_contributions contrib_data of
                                      Inl e \<Rightarrow> Inl e
                                    | Inr ca \<Rightarrow> Inr (summary\<lparr>contribution_analysis_s := Some ca\<rparr>))
                              else Inr summary)
                    else Inr summary))"

section \<open>The collectors\<close>

text \<open>
  The hosting API as the collectors see it: each request either raises or answers. The
  quota request is made at checkpoints of the loops, and its answer may differ from one
  checkpoint to the next. An API repository object carries the attributes of \<open>repo\<close>;
  \<open>get_topics\<close> is a request of its own.
\<close>

datatype checkpoint = InOrg string nat | AfterRepo nat | OnDemand

record rate =
  remaining :: int
  limit :: int
  reset :: int

record github_api =
  get_organization_repos :: "string \<Rightarrow> py_error + repo list"
  get_topics :: "string \<Rightarrow> py_error + string list"
  get_contributors :: "string \<Rightarrow> py_error + contributor list"
  get_rate_limit :: "checkpoint \<Rightarrow> py_error + rate"

text \<open>
  What a run does besides computing its result, in order: the requests it sends, the
  error and quota lines it prints or logs, and its sleeps. Progress lines are left out.
\<close>

datatype event =
    GetOrganizationRepos string
  | GetTopics string
  | GetContributors string
  | GetRateLimit checkpoint
  | PrintRateLimit int int
  | PrintLowWarning
  | PrintError string py_error
  | LogWarningWait int
  | TimeSleep int

subsection \<open>Repository collector (\<open>collect_repo_data.py\<close>)\<close>

definition rate_limit_check :: "github_api \<Rightarrow> checkpoint \<Rightarrow> event list \<times> (py_error + bool)" where
  "rate_limit_check api cp =
     (case get_rate_limit api cp of
        Inl e \<Rightarrow> ([GetRateLimit cp], Inl e)
      | Inr r \<Rightarrow>
          if remaining r < 100
          then ([GetRateLimit cp, PrintRateLimit (remaining r) (limit r), PrintLowWarning], Inr False)
          else ([GetRateLimit cp, PrintRateLimit (remaining r) (limit r)], Inr True))"

text \<open>
  The \<open>for i, repo in enumerate(repos, 1)\<close> loop inside the \<open>try\<close>: the events so far and
  either the exception that ends the loop or the records.
\<close>

fun process_repos ::
    "github_api \<Rightarrow> string \<Rightarrow> nat \<Rightarrow> repo list \<Rightarrow> event list \<times> (py_error + repo list)" where
  "process_repos api org_name i [] = ([], Inr [])"
| "process_repos api org_name i (r # rs) =
     (case get_topics api (full_name r) of
        Inl e \<Rightarrow> ([GetTopics (full_name r)], Inl e)
      | Inr ts \<Rightarrow>
          let data = r\<lparr>organization := org_name, topics := ts\<rparr>;
              (ev1, chk) = (if i mod 20 = 0 then rate_limit_check api (InOrg org_name i)
                            else ([], Inr True))
          in (case chk of
                Inl e \<Rightarrow> (GetTopics (full_name r) # ev1, Inl e)
              | Inr ok \<Rightarrow>
                  let (ev2, rest) = process_repos api org_name (Suc i) rs
                  in (GetTopics (full_name r) # ev1 @ ev2,
                      case rest of Inl e \<Rightarrow> Inl e | Inr ds \<Rightarrow> Inr (data # ds))))"

text \<open>The body of the \<open>try\<close> of \<open>collect_organization_repos\<close>.\<close>

definition fetch_organization ::
    "github_api \<Rightarrow> string \<Rightarrow> int \<Rightarrow> event list \<times> (py_error + repo list)" where
  "fetch_organization api org_name max_repos =
     (case get_organization_repos api org_name of
        Inl e \<Rightarrow> ([GetOrganizationRepos org_name], Inl e)
      | Inr all_repos \<Rightarrow>
          let (ev, res) = process_repos api org_name 1 (py_take max_repos all_repos)
          in (GetOrganizationRepos org_name # ev, res))"

text \<open>\<open>collect_organization_repos\<close>: \<open>except Exception\<close> prints the error and returns \<open>[]\<close>.\<close>

definition collect_organization_repos ::
    "github_api \<Rightarrow> string \<Rightarrow> int \<Rightarrow> repo list \<times> event list" where
  "collect_organization_repos api org_name max_repos =
     (let (ev, res) = fetch_organization api org_name max_repos
      in case res of
           Inl e \<Rightarrow> ([], ev @ [PrintError org_name e])
         | Inr repo_data \<Rightarrow> (repo_data, ev))"

text \<open>The loop \<open>for org in orgs: all_repo_data.extend(...)\<close> of \<open>main\<close>.\<close>

fun collect_all_organizations ::
    "github_api \<Rightarrow> int \<Rightarrow> string list \<Rightarrow> repo list \<times> event list" where
  "collect_all_organizations api max_repos [] = ([], [])"
| "collect_all_organizations api max_repos (org # orgs) =
     (let (repo_data, ev) = collect_organization_repos api org max_repos;
          (all_repo_data, evs) = collect_all_organizations api max_repos orgs
      in (repo_data @ all_repo_data, ev @ evs))"

subsection \<open>Contributor collector (\<open>collect_contribution_data.py\<close>)\<close>

text \<open>
  \<open>collect_repository_contributors\<close>: \<open>None\<close> after an exception. The list is cut to
  \<open>max_contributors\<close> first, and \<open>total_contributors\<close> is the length of the cut list.
\<close>

definition collect_repository_contributors ::
    "github_api \<Rightarrow> string \<Rightarrow> int \<Rightarrow> repo_contribution option \<times> event list" where
  "collect_repository_contributors api repo_name max_contributors =
     (case get_contributors api repo_name of
        Inl e \<Rightarrow> (None, [GetContributors repo_name, PrintError repo_name e])
      | Inr all_contributors \<Rightarrow>
          let cs = py_take max_contributors all_contributors
          in (Some \<lparr>repo_full_name = repo_name, total_contributors = int (length cs),
                    contributors = cs\<rparr>,
              [GetContributors repo_name]))"

text \<open>\<open>sorted(repos_data, key=stars, reverse=True)[:max_repos]\<close>.\<close>

definition select_top_repos :: "repo list \<Rightarrow> int \<Rightarrow> repo list" where
  "select_top_repos repos_data max_repos = py_take max_repos (sorted_reverse stars repos_data)"

text \<open>
  The loop \<open>for i, repo in enumerate(top_repos, 1)\<close> of \<open>main\<close>. The quota request under
  \<open># Rate limit management\<close> is outside any \<open>try\<close>: if it raises, the run ends before the
  output file is written. The repository keys that \<open>update\<close> adds to an entry are not
  part of \<open>repo_contribution\<close>.
\<close>

fun contribution_loop ::
    "github_api \<Rightarrow> int \<Rightarrow> nat \<Rightarrow> repo list \<Rightarrow> py_error + (repo_contribution list \<times> event list)" where
  "contribution_loop api max_contributors i [] = Inr ([], [])"
| "contribution_loop api max_contributors i (repo # top_repos) =
     (let (contrib_info, ev1) = collect_repository_contributors api (full_name repo) max_contributors;
          data1 = (case contrib_info of None \<Rightarrow> [] | Some c \<Rightarrow> [c])
      in if i mod 10 = 0
         then (case get_rate_limit api (AfterRepo i) of
                 Inl e \<Rightarrow> Inl e
               | Inr r \<Rightarrow>
                   (case contribution_loop api max_contributors (Suc i) top_repos of
                      Inl e \<Rightarrow> Inl e
                    | Inr (contribution_data, ev) \<Rightarrow>
                        Inr (data1 @ contribution_data,
                             ev1 @ [GetRateLimit (AfterRepo i),
                                    PrintRateLimit (remaining r) (limit r)] @ ev)))
         else (case contribution_loop api max_contributors (Suc i) top_repos of
                 Inl e \<Rightarrow> Inl e
               | Inr (contribution_data, ev) \<Rightarrow> Inr (data1 @ contribution_data, ev1 @ ev)))"

definition collect_contributions ::
    "github_api \<Rightarrow> repo list \<Rightarrow> int \<Rightarrow> int \<Rightarrow> py_error + (repo_contribution list \<times> event list)" where
  "collect_contributions api repos_data max_contributors max_repos =
     contribution_loop api max_contributors 1 (select_top_repos repos_data max_repos)"

subsection \<open>The scheduled pipeline (\<open>dags/\<close>)\<close>

text \<open>
  \<open>GitHubDataCollector.check_rate_limit\<close>, with the clock reading \<open>now\<close>: below 100
  remaining requests it sleeps until the reset plus a minute. No collector calls it.
\<close>

definition check_rate_limit :: "github_api \<Rightarrow> int \<Rightarrow> py_error + event list" where
  "check_rate_limit api now =
     (case get_rate_limit api OnDemand of
        Inl e \<Rightarrow> Inl e
      | Inr core \<Rightarrow>
          if remaining core < 100
          then (let wait_time = (reset core - now) + 60
                in Inr [GetRateLimit OnDemand, PrintRateLimit (remaining core) (limit core),
                        LogWarningWait wait_time, TimeSleep (max 0 wait_time)])
          else Inr [GetRateLimit OnDemand, PrintRateLimit (remaining core) (limit core)])"

text \<open>\<open>GitHubDataCollector.get_repository_contributors\<close>: \<open>[]\<close> after an exception.\<close>

definition get_repository_contributors :: "github_api \<Rightarrow> string \<Rightarrow> contributor list" where
  "get_repository_contributors api repo_name =
     (case get_contributors api repo_name of Inl e \<Rightarrow> [] | Inr cs \<Rightarrow> cs)"

text \<open>
  One entry of \<open>collect_contribution_data\<close> of the pipeline: \<open>total_contributors\<close> is the
  length of the whole list, and only the stored list is cut, to 20.
\<close>

definition dag_repo_contributions :: "github_api \<Rightarrow> repo \<Rightarrow> repo_contribution" where
  "dag_repo_contributions api repo =
     (let cs = get_repository_contributors api (full_name repo)
      in \<lparr>repo_full_name = full_name repo, total_contributors = int (length cs),
          contributors = py_take 20 cs\<rparr>)"

section \<open>Retention sweeper (\<open>cleanup_old_files\<close>)\<close>

text \<open>A calendar date as \<open>datetime\<close> holds it.\<close>

record date =
  year :: nat
  month :: nat
  day :: nat

definition is_leap :: "nat \<Rightarrow> bool" where
  "is_leap y \<longleftrightarrow> y mod 4 = 0 \<and> (y mod 100 \<noteq> 0 \<or> y mod 400 = 0)"

definition days_in_month :: "nat \<Rightarrow> nat \<Rightarrow> nat" where
  "days_in_month y m =
     (if m = 2 then (if is_leap y then 29 else 28)
      else if m = 4 \<or> m = 6 \<or> m = 9 \<or> m = 11 then 30 else 31)"

text \<open>\<open>date.toordinal()\<close>: day 1 is 0001-01-01 of the proleptic Gregorian calendar.\<close>

definition days_before_year :: "nat \<Rightarrow> nat" where
  "days_before_year y = (y - 1) * 365 + (y - 1) div 4 - (y - 1) div 100 + (y - 1) div 400"

definition days_before_month :: "nat \<Rightarrow> nat \<Rightarrow> nat" where
  "days_before_month y m = sum_list (map (days_in_month y) [1..<m])"

definition toordinal :: "date \<Rightarrow> nat" where
  "toordinal d = days_before_year (year d) + days_before_month (year d) (month d) + day d"

text \<open>\<open>(a - b).days\<close> for two dates at midnight.\<close>

definition days_between :: "date \<Rightarrow> date \<Rightarrow> int" where
  "days_between a b = int (toordinal a) - int (toordinal b)"

text \<open>
  \<open>datetime.strptime(s, '%Y-%m-%d')\<close>. The directives stand for the patterns
  \<open>\d\d\d\d\<close>, \<open>1[0-2]|0[1-9]|[1-9]\<close> and \<open>3[0-1]|[1-2]\d|0[1-9]|[1-9]| [1-9]\<close>, the
  whole string has to be consumed, and the numbers have to form a date (year at least 1,
  day within the month); anything else raises \<open>ValueError\<close>. Characters are bytes here,
  so digits outside ASCII are not digits.
\<close>

definition is_digit :: "char \<Rightarrow> bool" where
  "is_digit c \<longleftrightarrow> 48 \<le> (of_char c :: nat) \<and> (of_char c :: nat) \<le> 57"

definition digit :: "char \<Rightarrow> nat" where
  "digit c = of_char c - 48"

definition month_directive :: "string \<Rightarrow> nat option" where
  "month_directive s =
     (case s of
        [a] \<Rightarrow> if is_digit a \<and> a \<noteq> CHR ''0'' then Some (digit a) else None
      | [a, b] \<Rightarrow>
          if a = CHR ''1'' \<and> is_digit b \<and> digit b \<le> 2 then Some (10 + digit b)
          else if a = CHR ''0'' \<and> is_digit b \<and> b \<noteq> CHR ''0'' then Some (digit b)
          else None
      | _ \<Rightarrow> None)"

definition day_directive :: "string \<Rightarrow> nat option" where
  "day_directive s =
     (case s of
        [a] \<Rightarrow> if is_digit a \<and> a \<noteq> CHR ''0'' then Some (digit a) else None
      | [a, b] \<Rightarrow>
          if a = CHR ''3'' \<and> is_digit b \<and> digit b \<le> 1 then Some (30 + digit b)
          else if (a = CHR ''1'' \<or> a = CHR ''2'') \<and> is_digit b then Some (10 * digit a + digit b)
          else if (a = CHR ''0'' \<or> a = CHR '' '') \<and> is_digit b \<and> b \<noteq> CHR ''0''
               then Some (digit b)
          else None
      | _ \<Rightarrow> None)"

definition strptime :: "string \<Rightarrow> py_error + date" where
  "strptime s =
     (case s of
        y1 # y2 # y3 # y4 # sep # rest \<Rightarrow>
          if is_digit y1 \<and> is_digit y2 \<and> is_digit y3 \<and> is_digit y4 \<and> sep = CHR ''-''
          then (case dropWhile (\<lambda>c. c \<noteq> CHR ''-'') rest of
                  [] \<Rightarrow> Inl ValueError
                | dash # day_text \<Rightarrow>
                    (case (month_directive (takeWhile (\<lambda>c. c \<noteq> CHR ''-'') rest),
                           day_directive day_text) of
                       (Some m, Some d) \<Rightarrow>
                         let y = 1000 * digit y1 + 100 * digit y2 + 10 * digit y3 + digit y4
                         in if 1 \<le> y \<and> d \<le> days_in_month y m
                            then Inr \<lparr>year = y, month = m, day = d\<rparr>
                            else Inl ValueError
                     | _ \<Rightarrow> Inl ValueError))
          else Inl ValueError
      | _ \<Rightarrow> Inl ValueError)"

text \<open>\<open>name.split('_')[-1]\<close>: what follows the last underscore, or the whole name.\<close>

definition last_segment :: "string \<Rightarrow> string" where
  "last_segment nm = rev (takeWhile (\<lambda>c. c \<noteq> CHR ''_'') (rev nm))"

text \<open>\<open>.replace('.json', '')\<close>: every occurrence is removed, from left to right.\<close>

fun replace_json :: "string \<Rightarrow> string" where
  "replace_json [] = []"
| "replace_json (c # cs) =
     (if take 5 (c # cs) = ''.json'' then replace_json (drop 4 cs) else c # replace_json cs)"

definition date_str :: "string \<Rightarrow> string" where
  "date_str nm = replace_json (last_segment nm)"

text \<open>
  \<open>glob.glob(output_dir / "*.json")\<close> on the names of a directory: the names that end in
  \<open>.json\<close> and do not start with a dot.
\<close>

definition glob_json :: "string \<Rightarrow> bool" where
  "glob_json nm \<longleftrightarrow>
     5 \<le> length nm \<and> drop (length nm - 5) nm = ''.json'' \<and> hd nm \<noteq> CHR ''.''"

text \<open>
  The loop over the matching names, on the names the directory holds. \<open>ValueError\<close> from
  \<open>strptime\<close> is caught and the file is skipped; \<open>unlink\<close> removes the name. A deletion
  refused by the operating system is outside this model.
\<close>

fun sweep :: "date \<Rightarrow> string list \<Rightarrow> string list \<Rightarrow> string list" where
  "sweep current_date [] dir = dir"
| "sweep current_date (file_path # paths) dir =
     (case strptime (date_str file_path) of
        Inl e \<Rightarrow> sweep current_date paths dir
      | Inr file_date \<Rightarrow>
          if days_between current_date file_date > 7
          then sweep current_date paths (removeAll file_path dir)
          else sweep current_date paths dir)"

text \<open>\<open>cleanup_old_files\<close> for the run date \<open>ds\<close>: the names left in the directory.\<close>

definition cleanup_old_files :: "string \<Rightarrow> string list \<Rightarrow> py_error + string list" where
  "cleanup_old_files ds dir =
     (case strptime ds of
        Inl e \<Rightarrow> Inl e
      | Inr current_date \<Rightarrow> Inr (sweep current_date (filter glob_json dir) dir))"

section \<open>Report renderer (\<open>generate_dashboard.py\<close>)\<close>

text \<open>
  The Jinja2 template of \<open>create_dashboard_html\<close> as its syntax tree: expressions, and
  the nodes \<open>{{ ... }}\<close>, \<open>{% for %}\<close> and \<open>{% if %}\<close>. Static markup between them is
  abbreviated to a label.
\<close>

datatype expr =
    Name string
  | Const string
  | Getattr expr string
  | SliceTo expr nat
  | FormatCall string expr
  | Or expr expr
  | Filter expr string

datatype node =
    Data string
  | Output expr
  | For string expr "node list"
  | If expr "node list"

definition summary_path :: "string \<Rightarrow> string \<Rightarrow> expr" where
  "summary_path section key = Getattr (Getattr (Name ''summary_data'') section) key"

definition template_str :: "node list" where
  "template_str =
     [Data ''html head, styles, header'',
      Output (SliceTo (summary_path ''collection_metadata'' ''generation_timestamp'') 19),
      Data ''metric cards'',
      Output (FormatCall ''{:,}'' (summary_path ''collection_metadata'' ''total_repositories'')),
      Output (FormatCall ''{:,}'' (summary_path ''repository_statistics'' ''total_stars'')),
      Output (FormatCall ''{:,}'' (summary_path ''repository_statistics'' ''total_forks'')),
      Output (summary_path ''collection_metadata'' ''total_organizations''),
      Data ''top starred repositories, table head'',
      For ''repo'' (SliceTo (summary_path ''repository_rankings'' ''top_starred_repositories'') 15)
        [Output (Getattr (Name ''repo'') ''full_name''),
         Output (Getattr (Name ''repo'') ''organization''),
         Output (FormatCall ''{:,}'' (Getattr (Name ''repo'') ''stars'')),
         Output (FormatCall ''{:,}'' (Getattr (Name ''repo'') ''forks'')),
         Output (Or (Getattr (Name ''repo'') ''language'') (Const ''N/A''))],
      Data ''languages and organizations chart containers'',
      If (Getattr (Name ''summary_data'') ''contribution_analysis'')
        [Data ''top contributors, table head'',
         For ''contrib''
           (SliceTo (Getattr (Getattr (Name ''summary_data'') ''contribution_analysis'')
                       ''top_contributors'') 10)
           [Output (Getattr (Name ''contrib'') ''avatar_url''),
            Output (Getattr (Name ''contrib'') ''login''),
            Output (FormatCall ''{:,}'' (Getattr (Name ''contrib'') ''total_contributions'')),
            Output (Getattr (Name ''contrib'') ''repos_contributed''),
            Output (Getattr (Name ''contrib'') ''html_url'')]],
      Data ''script: languages chart'',
      Output (Filter (summary_path ''programming_languages'' ''top_languages'') ''tojsonfilter''),
      Data ''script: organizations chart'',
      Output (Filter (Getattr (Name ''summary_data'') ''organization_breakdown'') ''tojsonfilter''),
      Data ''script end, html end'']"

text \<open>
  The filters of Jinja2's default environment (\<open>jinja2.defaults.DEFAULT_FILTERS\<close>), which
  \<open>Template(template_str)\<close> uses: the code registers no filter of its own.
\<close>

definition default_filters :: "string list" where
  "default_filters =
     [''abs'', ''attr'', ''batch'', ''capitalize'', ''center'', ''count'', ''d'', ''default'',
      ''dictsort'', ''e'', ''escape'', ''filesizeformat'', ''first'', ''float'',
      ''forceescape'', ''format'', ''groupby'', ''indent'', ''int'', ''items'', ''join'',
      ''last'', ''length'', ''list'', ''lower'', ''map'', ''max'', ''min'', ''pprint'',
      ''random'', ''reject'', ''rejectattr'', ''replace'', ''reverse'', ''round'', ''safe'',
      ''select'', ''selectattr'', ''slice'', ''sort'', ''string'', ''striptags'', ''sum'',
      ''title'', ''tojson'', ''trim'', ''truncate'', ''unique'', ''upper'', ''urlencode'',
      ''urlize'', ''wordcount'', ''wordwrap'', ''xmlattr'']"

fun filters_of :: "expr \<Rightarrow> string list" where
  "filters_of (Name x) = []"
| "filters_of (Const c) = []"
| "filters_of (Getattr e a) = filters_of e"
| "filters_of (SliceTo e n) = filters_of e"
| "filters_of (FormatCall f e) = filters_of e"
| "filters_of (Or a b) = filters_of a @ filters_of b"
| "filters_of (Filter e f) = filters_of e @ [f]"

text \<open>
  The filters that compiling a template looks up: Jinja2 compiles a filter under an
  \<open>{% if %}\<close> to a lookup at render time, and every other filter has to exist when the
  template is compiled.
\<close>

fun compiled_filters :: "node \<Rightarrow> string list" where
  "compiled_filters (Data t) = []"
| "compiled_filters (Output e) = filters_of e"
| "compiled_filters (For x e body) = filters_of e @ concat (map compiled_filters body)"
| "compiled_filters (If e body) = []"

text \<open>\<open>Template(source)\<close>: \<open>TemplateAssertionError\<close> for the first filter that does not exist.\<close>

definition Template :: "string list \<Rightarrow> node list \<Rightarrow> py_error + node list" where
  "Template env_filters source =
     (case filter (\<lambda>f. f \<notin> set env_filters) (concat (map compiled_filters source)) of
        [] \<Rightarrow> Inr source
      | f # fs \<Rightarrow> Inl (TemplateAssertionError f))"

text \<open>
  \<open>create_dashboard_html\<close>. Rendering a compiled template is Jinja2's part and is taken
  as the parameter \<open>render\<close>.
\<close>

definition create_dashboard_html ::
    "(node list \<Rightarrow> summary \<Rightarrow> py_error + string) \<Rightarrow> summary \<Rightarrow> py_error + string" where
  "create_dashboard_html render summary_data =
     (case Template default_filters template_str of
        Inl e \<Rightarrow> Inl e
      | Inr template \<Rightarrow> render template summary_data)"

section \<open>Example inputs\<close>

definition mk_repo :: "string \<Rightarrow> string \<Rightarrow> int \<Rightarrow> int \<Rightarrow> string option \<Rightarrow> string option \<Rightarrow> repo" where
  "mk_repo org nm st fk lang lic =
     \<lparr>organization = org, name = nm, full_name = org @ ''/'' @ nm, stars = st, forks = fk,
      open_issues = 0, language = lang, size_r = 1, updated_at = None, archived = False,
      has_wiki = False, has_pages = False, has_issues = True, license = lic,
      topics = []\<rparr>"

definition files_of :: "repo list \<Rightarrow> repo_contribution list option \<Rightarrow> files" where
  "files_of rs cs =
     \<lparr>repo_files = (\<lambda>p. if p = ''repos.json'' then Some (Json rs) else None),
      contrib_files = (\<lambda>p. if p = ''contrib.json'' then map_option Json cs else None)\<rparr>"

definition two_orgs :: "repo list" where
  "two_orgs =
     [mk_repo ''apache'' ''spark'' 7 2 (Some ''Scala'') None,
      mk_repo ''kubernetes'' ''kubectl'' 5 1 (Some ''Go'') (Some ''Apache-2.0''),
      mk_repo ''apache'' ''kafka'' 3 4 None None]"

definition abc :: "repo list" where
  "abc = [mk_repo ''o'' ''A'' 100 10 None None, mk_repo ''o'' ''B'' 300 5 None None,
          mk_repo ''o'' ''C'' 300 20 None None]"

definition mk_contributor :: "string \<Rightarrow> int \<Rightarrow> contributor" where
  "mk_contributor l n =
     \<lparr>login = l, contributions = n, avatar_url = ''https://avatars/'' @ l,
      html_url = ''https://github.com/'' @ l\<rparr>"

definition contrib_ab :: "repo_contribution list" where
  "contrib_ab =
     [\<lparr>repo_full_name = ''o/A'', total_contributors = 2,
       contributors = [mk_contributor ''x'' 10, mk_contributor ''y'' 25]\<rparr>,
      \<lparr>repo_full_name = ''o/B'', total_contributors = 1,
       contributors = [mk_contributor ''x'' 15]\<rparr>]"

text \<open>
  The snapshot invariants of the data model that the leaderboard's repository count
  refers to: one entry per repository, and in it one record per contributor.
\<close>

definition one_record_per_contributor :: "repo_contribution list \<Rightarrow> bool" where
  "one_record_per_contributor contrib_data \<longleftrightarrow>
     distinct (map repo_full_name contrib_data)
     \<and> list_all (\<lambda>r. distinct (map login (contributors r))) contrib_data"

text \<open>The dictionary that the two loops build, said directly: per login the sums over its records.\<close>

definition records_of :: "string \<Rightarrow> contributor list \<Rightarrow> contributor list" where
  "records_of l cs = filter (\<lambda>c. login c = l) cs"

definition all_records :: "repo_contribution list \<Rightarrow> contributor list" where
  "all_records contrib_data = concat (map contributors contrib_data)"

definition activity_of :: "string \<Rightarrow> contributor list \<Rightarrow> activity" where
  "activity_of l cs =
     \<lparr>total_contributions = sum_list (map contributions (records_of l cs)),
      repos_contributed = int (length (records_of l cs)),
      act_avatar_url = avatar_url (hd (records_of l cs)),
      act_html_url = html_url (hd (records_of l cs))\<rparr>"

definition merged_activity :: "contributor list \<Rightarrow> (string \<times> activity) list" where
  "merged_activity cs = map (\<lambda>l. (l, activity_of l cs)) (unique (map login cs))"

definition report_ab :: summary where
  "report_ab = (base_summary two_orgs)
     \<lparr>contribution_analysis_s :=
        Some \<lparr>repositories_analyzed = 2, ca_total_contributors = 3,
              average_contributors_per_repo = 3 / 2,
              top_contributors = top_contributors_of contrib_ab\<rparr>\<rparr>"

definition three_users :: "contributor list" where
  "three_users = [mk_contributor ''x'' 10, mk_contributor ''y'' 5, mk_contributor ''z'' 1]"

text \<open>
  An API with one organization, one repository whose contributors cannot be fetched, and
  a quota of 5 remaining requests at every checkpoint.
\<close>

definition api_ex :: github_api where
  "api_ex =
     \<lparr>get_organization_repos =
        (\<lambda>org. if org = ''apache''
               then Inr [mk_repo ''apache'' ''spark'' 7 2 (Some ''Scala'') None]
               else Inl (GithubException ''404'')),
      get_topics = (\<lambda>n. Inr [''data'']),
      get_contributors =
        (\<lambda>n. if n = ''o/broken'' then Inl (GithubException ''404'') else Inr three_users),
      get_rate_limit = (\<lambda>cp. Inr \<lparr>remaining = 5, limit = 5000, reset = 3600\<rparr>)\<rparr>"

definition eleven_repos :: "repo list" where
  "eleven_repos =
     [mk_repo ''o'' ''r01'' 11 0 None None, mk_repo ''o'' ''r02'' 10 0 None None,
      mk_repo ''o'' ''r03'' 9 0 None None, mk_repo ''o'' ''r04'' 8 0 None None,
      mk_repo ''o'' ''r05'' 7 0 None None, mk_repo ''o'' ''r06'' 6 0 None None,
      mk_repo ''o'' ''r07'' 5 0 None None, mk_repo ''o'' ''r08'' 4 0 None None,
      mk_repo ''o'' ''r09'' 3 0 None None, mk_repo ''o'' ''r10'' 2 0 None None,
      mk_repo ''o'' ''r11'' 1 0 None None]"

text \<open>What the contributor loop appends for a list of repositories: nothing for a failed one.\<close>

definition entries_of :: "github_api \<Rightarrow> int \<Rightarrow> repo list \<Rightarrow> repo_contribution list" where
  "entries_of api max_contributors rs =
     concat (map (\<lambda>r. case fst (collect_repository_contributors api (full_name r) max_contributors) of
                          None \<Rightarrow> [] | Some c \<Rightarrow> [c]) rs)"

definition output_dir_ex :: "string list" where
  "output_dir_ex =
     [''repos_raw_2024-03-04.json'', ''contributions_2024-02-29.json'',
      ''github_summary_2024-02-26.json'', ''repos_raw_2024-02-24.json'',
      ''notes.json'', ''repos_raw_2024-02-30.json'', ''old_2020-01-01.csv'']"

text \<open>The files the sweeper deletes, said directly.\<close>

definition too_old :: "date \<Rightarrow> string \<Rightarrow> bool" where
  "too_old current_date nm \<longleftrightarrow>
     (case strptime (date_str nm) of
        Inl e \<Rightarrow> False
      | Inr file_date \<Rightarrow> days_between current_date file_date > 7)"

definition expired :: "date \<Rightarrow> string \<Rightarrow> bool" where
  "expired current_date nm \<longleftrightarrow> glob_json nm \<and> too_old current_date nm"

section \<open>Properties of the helpers\<close>

lemma set_unique [simp]: "set (unique xs) = set xs"
  by (induction xs) auto

lemma distinct_unique [simp]: "distinct (unique xs)"
  by (induction xs) (auto simp: distinct_removeAll)

lemma generate_summary_report_Inr:
  assumes "generate_summary_report fs repo_file contrib_file = Inr s"
  obtains repos_data where "load_json (repo_files fs) repo_file = Inr repos_data"
    and "repos_data \<noteq> []"
    and "s\<lparr>contribution_analysis_s := None\<rparr> = base_summary repos_data"
  using assms unfolding generate_summary_report_def
  by (auto simp: Let_def base_summary_def split: sum.splits if_splits option.splits)

lemma set_dropna: "set (dropna col) = {v. Some v \<in> set col}"
  by (induction col) (auto simp: dropna_def map_filter_simps split: option.splits)

lemma count_list_dropna_map:
  "count_list (dropna (map f xs)) v = length (filter (\<lambda>x. f x = Some v) xs)"
  by (induction xs) (auto simp: dropna_def map_filter_simps split: option.splits)

lemma length_dropna_map: "length (dropna (map f xs)) = length (filter (\<lambda>x. f x \<noteq> None) xs)"
  by (induction xs) (auto simp: dropna_def map_filter_simps split: option.splits)

lemma set_sorted_reverse [simp]: "set (sorted_reverse k xs) = set xs"
  by (simp add: sorted_reverse_def)

lemma mset_sorted_reverse [simp]: "mset (sorted_reverse k xs) = mset xs"
  by (simp add: sorted_reverse_def)

lemma sorted_reverse_descending: "sorted_wrt (\<lambda>x y. k y \<le> k x) (sorted_reverse k xs)"
proof -
  have "sorted (map (\<lambda>x. - k x) (sorted_reverse k xs))"
    by (simp add: sorted_reverse_def)
  then show ?thesis by (simp add: sorted_map)
qed

lemma sorted_reverse_stable:
  "filter (\<lambda>x. k x = v) (sorted_reverse k xs) = filter (\<lambda>x. k x = v) xs"
  using sort_key_stable [of "\<lambda>x. - k x" "- v" xs] by (simp add: sorted_reverse_def)

lemma value_counts_mset:
  "mset (value_counts col) = mset (map (\<lambda>v. (v, count_list (dropna col) v)) (unique (dropna col)))"
  by (simp add: value_counts_def Let_def)

lemma value_counts_keys_distinct: "distinct (map fst (value_counts col))"
proof -
  have "mset (map fst (value_counts col)) = mset (unique (dropna col))"
    using arg_cong [OF value_counts_mset, of "image_mset fst" col]
    by (simp add: multiset.map_comp comp_def)
  then show ?thesis
    by (metis distinct_unique mset_eq_imp_distinct_iff)
qed

lemma value_counts_entry:
  "(v, c) \<in> set (value_counts (map f xs)) \<Longrightarrow> c = length (filter (\<lambda>x. f x = Some v) xs) \<and> 0 < c"
  by (auto simp: value_counts_def Let_def count_list_dropna_map set_dropna filter_empty_conv)

lemma sum_counts_unique: "sum_list (map (count_list xs) (unique xs)) = length xs"
proof -
  have "sum_list (map (count_list xs) (unique xs)) = sum (count_list xs) (set (unique xs))"
    by (simp add: sum_list_distinct_conv_sum_set)
  then show ?thesis by (simp add: sum_count_set)
qed

lemma value_counts_total:
  "sum_list (map snd (value_counts (map f xs))) = length (filter (\<lambda>x. f x \<noteq> None) xs)"
proof -
  let ?vals = "dropna (map f xs)"
  let ?M = "map (\<lambda>v. (v, count_list ?vals v)) (unique ?vals)"
  have "sum_list (map snd (value_counts (map f xs)))
      = sum_mset (image_mset snd (mset (value_counts (map f xs))))"
    by (metis mset_map sum_mset_sum_list)
  also have "\<dots> = sum_mset (image_mset snd (mset ?M))"
    by (simp only: value_counts_mset)
  also have "\<dots> = sum_list (map snd ?M)"
    by (metis mset_map sum_mset_sum_list)
  also have "\<dots> = sum_list (map (count_list ?vals) (unique ?vals))"
    by (simp add: comp_def)
  also have "\<dots> = length (filter (\<lambda>x. f x \<noteq> None) xs)"
    by (simp only: sum_counts_unique length_dropna_map)
  finally show ?thesis .
qed

lemma sum_list_take_le:
  fixes xs :: "nat list"
  shows "sum_list (take n xs) \<le> sum_list xs"
  by (metis append_take_drop_id le_add1 sum_list_append)

lemma gen_no_contrib:
  "load_json (repo_files fs) repo_file = Inr repos_data \<Longrightarrow> repos_data \<noteq> [] \<Longrightarrow>
     generate_summary_report fs repo_file None = Inr (base_summary repos_data)"
  by (simp add: generate_summary_report_def)

lemma load_files_of [simp]: "load_json (repo_files (files_of rs cs)) ''repos.json'' = Inr rs"
  by (simp add: load_json_def files_of_def)

section \<open>Organization breakdown\<close>

lemma sum_list_by_key:
  fixes g :: "'a \<Rightarrow> int"
  assumes "finite K" "f ` set xs \<subseteq> K"
  shows "(\<Sum>k\<in>K. sum_list (map g (filter (\<lambda>x. f x = k) xs))) = sum_list (map g xs)"
  using assms
proof (induction xs)
  case Nil
  then show ?case by simp
next
  case (Cons x xs)
  have "(\<Sum>k\<in>K. sum_list (map g (filter (\<lambda>y. f y = k) (x # xs))))
      = (\<Sum>k\<in>K. (if k = f x then g x else 0) + sum_list (map g (filter (\<lambda>y. f y = k) xs)))"
    by (intro sum.cong) auto
  also have "\<dots> = g x + (\<Sum>k\<in>K. sum_list (map g (filter (\<lambda>y. f y = k) xs)))"
    using Cons.prems by (simp add: sum.distrib)
  finally show ?case using Cons by simp
qed

lemma sum_list_groups:
  fixes g :: "'a \<Rightarrow> int"
  assumes "distinct ks" "set ks = f ` set xs"
  shows "sum_list (map (\<lambda>k. sum_list (map g (filter (\<lambda>x. f x = k) xs))) ks) = sum_list (map g xs)"
proof -
  have "sum_list (map (\<lambda>k. sum_list (map g (filter (\<lambda>x. f x = k) xs))) ks)
      = (\<Sum>k\<in>set ks. sum_list (map g (filter (\<lambda>x. f x = k) xs)))"
    using assms(1) by (simp add: sum_list_distinct_conv_sum_set)
  also have "\<dots> = sum_list (map g xs)"
    by (rule sum_list_by_key) (simp_all add: assms(2))
  finally show ?thesis .
qed

lemma org_stats_stars:
  "sum_list (map (\<lambda>(k, row). stars_sum row) (org_stats repo_df)) = sum_list (map stars repo_df)"
proof -
  have "sum_list (map (\<lambda>(k, row). stars_sum row) (org_stats repo_df))
      = sum_list (map (\<lambda>k. sum_list (map stars (filter (\<lambda>r. organization r = k) repo_df)))
                      (group_keys repo_df))"
    by (simp add: org_stats_def agg_def comp_def)
  also have "\<dots> = sum_list (map stars repo_df)"
    by (rule sum_list_groups) (simp_all add: group_keys_def)
  finally show ?thesis .
qed

lemma org_stats_keys: "map fst (org_stats repo_df) = group_keys repo_df"
  by (simp add: org_stats_def comp_def)

lemma org_stats_row:
  "(k, row) \<in> set (org_stats repo_df) \<Longrightarrow>
     stars_sum row = sum_list (map stars (filter (\<lambda>r. organization r = k) repo_df))"
  by (auto simp: org_stats_def agg_def)

lemma two_orgs_nonempty: "two_orgs \<noteq> []"
  by (simp add: two_orgs_def)



section \<open>Histograms\<close>

text \<open>
  C1 (as amended). For every non-empty repository snapshot the report is produced also
  when records lack a language or a license. A record whose \<open>language\<close> is null is counted
  in no bucket of the language histogram: every bucket carries a language that occurs and
  counts exactly the records with that language, so the bucket counts add up to at most
  the number of records that have a language, which \<open>repositories_with_language\<close> reports.
  Likewise for \<open>license\<close>, where the records without one are counted in
  \<open>repositories_without_license\<close>.
\<close>

theorem histogram_leaves_out_null:
  assumes "load_json (repo_files fs) repo_file = Inr repos_data" and "repos_data \<noteq> []"
  shows "(\<exists>s. generate_summary_report fs repo_file None = Inr s)
       \<and> (\<forall>s. generate_summary_report fs repo_file contrib_file = Inr s \<longrightarrow>
            (\<forall>(l, c) \<in> set (top_languages s).
                c = length (filter (\<lambda>r. language r = Some l) repos_data) \<and> 0 < c)
          \<and> distinct (map fst (top_languages s))
          \<and> sum_list (map snd (top_languages s)) \<le> length (filter (\<lambda>r. language r \<noteq> None) repos_data)
          \<and> repositories_with_language s = length (filter (\<lambda>r. language r \<noteq> None) repos_data)
          \<and> (\<forall>(l, c) \<in> set (license_distribution s).
                c = length (filter (\<lambda>r. license r = Some l) repos_data) \<and> 0 < c)
          \<and> distinct (map fst (license_distribution s))
          \<and> sum_list (map snd (license_distribution s)) \<le> length (filter (\<lambda>r. license r \<noteq> None) repos_data)
          \<and> repositories_without_license s = length (filter (\<lambda>r. license r = None) repos_data))"
proof (intro conjI allI impI)
  show "\<exists>s. generate_summary_report fs repo_file None = Inr s"
    using assms by (simp add: gen_no_contrib)
next
  fix s
  assume "generate_summary_report fs repo_file contrib_file = Inr s"
  with assms(1) have s: "s\<lparr>contribution_analysis_s := None\<rparr> = base_summary repos_data"
    by (auto elim!: generate_summary_report_Inr)
  have tl: "top_languages s = take 15 (value_counts (map language repos_data))"
    using arg_cong [OF s, of top_languages] by (simp add: base_summary_def language_counts_def head_def)
  have ld: "license_distribution s = take 10 (value_counts (map license repos_data))"
    using arg_cong [OF s, of license_distribution] by (simp add: base_summary_def license_counts_def head_def)
  show "\<forall>(l, c) \<in> set (top_languages s).
          c = length (filter (\<lambda>r. language r = Some l) repos_data) \<and> 0 < c"
    unfolding tl by (auto dest!: in_set_takeD value_counts_entry)
  show "\<forall>(l, c) \<in> set (license_distribution s).
          c = length (filter (\<lambda>r. license r = Some l) repos_data) \<and> 0 < c"
    unfolding ld by (auto dest!: in_set_takeD value_counts_entry)
  show "distinct (map fst (top_languages s))"
    unfolding tl by (simp add: value_counts_keys_distinct flip: take_map)
  show "distinct (map fst (license_distribution s))"
    unfolding ld by (simp add: value_counts_keys_distinct flip: take_map)
  show "sum_list (map snd (top_languages s)) \<le> length (filter (\<lambda>r. language r \<noteq> None) repos_data)"
    unfolding tl using sum_list_take_le [of 15 "map snd (value_counts (map language repos_data))"]
    by (simp only: value_counts_total take_map)
  show "sum_list (map snd (license_distribution s)) \<le> length (filter (\<lambda>r. license r \<noteq> None) repos_data)"
    unfolding ld using sum_list_take_le [of 10 "map snd (value_counts (map license repos_data))"]
    by (simp only: value_counts_total take_map)
  show "repositories_with_language s = length (filter (\<lambda>r. language r \<noteq> None) repos_data)"
    using arg_cong [OF s, of repositories_with_language] by (simp add: base_summary_def)
  show "repositories_without_license s = length (filter (\<lambda>r. license r = None) repos_data)"
    using arg_cong [OF s, of repositories_without_license] by (simp add: base_summary_def)
qed

theorem histogram_leaves_out_null_witness:
  "load_json (repo_files (files_of two_orgs None)) ''repos.json'' = Inr two_orgs
   \<and> two_orgs \<noteq> []
   \<and> generate_summary_report (files_of two_orgs None) ''repos.json'' None = Inr (base_summary two_orgs)
   \<and> (''Go'', 1) \<in> set (top_languages (base_summary two_orgs))
   \<and> length (filter (\<lambda>r. language r = Some ''Go'') two_orgs) = 1
   \<and> repositories_with_language (base_summary two_orgs) = 2
   \<and> repositories_without_license (base_summary two_orgs) = 2"
  using histogram_leaves_out_null [of "files_of two_orgs None" "''repos.json''" two_orgs None]
  apply (simp add: gen_no_contrib two_orgs_nonempty)
  apply (simp add: base_summary_def language_counts_def head_def value_counts_def dropna_def
      map_filter_simps two_orgs_def mk_repo_def sorted_reverse_def)
  done

text \<open>
  The claim as stated fails: in \<open>two_orgs\<close> the third record has no language and the first
  and third have no license; the histograms hold no bucket for them.
\<close>

theorem null_language_unknown_bucket_counterexample:
  "generate_summary_report (files_of two_orgs None) ''repos.json'' None = Inr (base_summary two_orgs)
   \<and> language (two_orgs ! 2) = None
   \<and> top_languages (base_summary two_orgs) = [(''Scala'', 1), (''Go'', 1)]
   \<and> map_of (top_languages (base_summary two_orgs)) ''unknown'' = None
   \<and> license (two_orgs ! 2) = None
   \<and> license_distribution (base_summary two_orgs) = [(''Apache-2.0'', 1)]"
  apply (simp add: gen_no_contrib two_orgs_nonempty)
  apply (simp add: base_summary_def language_counts_def license_counts_def head_def value_counts_def
      dropna_def map_filter_simps two_orgs_def mk_repo_def sorted_reverse_def)
  done

section \<open>Rankings\<close>

lemma nlargest_characterised:
  "\<exists>L. nlargest n col rows = take n L \<and> mset L = mset rows
     \<and> sorted_wrt (\<lambda>a b. col b \<le> col a) L
     \<and> (\<forall>v. filter (\<lambda>r. col r = v) L = filter (\<lambda>r. col r = v) rows)"
  by (rule exI [of _ "sorted_reverse col rows"])
     (simp add: nlargest_def sorted_reverse_descending sorted_reverse_stable)


lemma abc_nonempty: "abc \<noteq> []"
  by (simp add: abc_def)



section \<open>Optional contributor input\<close>

lemma analyse_contributions_nonempty:
  "contrib_data \<noteq> [] \<Longrightarrow> \<exists>ca. analyse_contributions contrib_data = Inr ca"
  by (simp add: analyse_contributions_def py_truediv_def Let_def)

lemma analyse_contributions_empty: "analyse_contributions [] = Inl ZeroDivisionError"
  by (simp add: analyse_contributions_def py_truediv_def)

text \<open>
  C10. When the contributor path is given but holds no file, or the file holds an empty
  JSON array, the report is the one produced without contributor input, and it has no
  \<open>contribution_analysis\<close>. The division behind \<open>average_contributors_per_repo\<close> is
  reached only with a non-empty contributor list: no call raises \<open>ZeroDivisionError\<close>.
\<close>

theorem missing_or_empty_contrib_file:
  "((contrib_files fs p = None \<or> contrib_files fs p = Some (Json [])) \<longrightarrow>
       generate_summary_report fs repo_file (Some p) = generate_summary_report fs repo_file None
     \<and> (\<forall>s. generate_summary_report fs repo_file (Some p) = Inr s \<longrightarrow> contribution_analysis_s s = None))
   \<and> generate_summary_report fs repo_file contrib_file \<noteq> Inl ZeroDivisionError"
proof (intro conjI impI allI)
  assume h: "contrib_files fs p = None \<or> contrib_files fs p = Some (Json [])"
  then show eq: "generate_summary_report fs repo_file (Some p) = generate_summary_report fs repo_file None"
    by (auto simp: generate_summary_report_def load_json_def Let_def split: sum.splits)
  fix s assume "generate_summary_report fs repo_file (Some p) = Inr s"
  with eq have "generate_summary_report fs repo_file None = Inr s" by simp
  then show "contribution_analysis_s s = None"
    by (auto simp: generate_summary_report_def base_summary_def Let_def split: sum.splits if_splits)
next
  show "generate_summary_report fs repo_file contrib_file \<noteq> Inl ZeroDivisionError"
    using analyse_contributions_nonempty
    by (fastforce simp: generate_summary_report_def load_json_def Let_def
        split: sum.splits if_splits option.splits json_file.splits)
qed

theorem missing_or_empty_contrib_file_witness:
  "contrib_files (files_of two_orgs (Some [])) ''contrib.json'' = Some (Json [])
   \<and> generate_summary_report (files_of two_orgs (Some [])) ''repos.json'' (Some ''contrib.json'')
       = Inr (base_summary two_orgs)
   \<and> contribution_analysis_s (base_summary two_orgs) = None
   \<and> contrib_files (files_of two_orgs None) ''contrib.json'' = None
   \<and> generate_summary_report (files_of two_orgs None) ''repos.json'' (Some ''contrib.json'')
       = Inr (base_summary two_orgs)"
  using missing_or_empty_contrib_file [of "files_of two_orgs (Some [])" "''contrib.json''" "''repos.json''" None]
    missing_or_empty_contrib_file [of "files_of two_orgs None" "''contrib.json''" "''repos.json''" None]
  apply (simp add: gen_no_contrib two_orgs_nonempty)
  apply (simp add: files_of_def base_summary_def)
  done

section \<open>Contributor leaderboard\<close>

lemma unique_snoc: "unique (xs @ [x]) = (if x \<in> set xs then unique xs else unique xs @ [x])"
  by (induction xs) auto

lemma foldl_nested_concat:
  "foldl (\<lambda>a r. foldl f a (g r)) a rs = foldl f a (concat (map g rs))"
  by (induction rs arbitrary: a) simp_all

lemma contributor_activity_flat:
  "contributor_activity contrib_data
     = foldl record_contributor [] (concat (map contributors contrib_data))"
  by (simp add: contributor_activity_def foldl_nested_concat)

lemma merged_keys: "map fst (merged_activity cs) = unique (map login cs)"
  by (simp add: merged_activity_def comp_def)

lemma records_of_snoc:
  "records_of l (cs @ [c]) = (if login c = l then records_of l cs @ [c] else records_of l cs)"
  by (simp add: records_of_def)

lemma records_of_empty: "records_of l cs = [] \<longleftrightarrow> l \<notin> login ` set cs"
  by (auto simp: records_of_def filter_empty_conv)

lemma activity_of_other: "login c \<noteq> l \<Longrightarrow> activity_of l (cs @ [c]) = activity_of l cs"
  by (simp add: activity_of_def records_of_snoc)

lemma activity_of_seen:
  "login c \<in> login ` set cs \<Longrightarrow>
     activity_of (login c) (cs @ [c])
       = (activity_of (login c) cs)
           \<lparr>total_contributions := total_contributions (activity_of (login c) cs) + contributions c,
            repos_contributed := repos_contributed (activity_of (login c) cs) + 1\<rparr>"
  using records_of_empty [of "login c" cs]
  by (simp add: activity_of_def records_of_snoc)

lemma activity_of_new:
  "login c \<notin> login ` set cs \<Longrightarrow>
     activity_of (login c) (cs @ [c])
       = \<lparr>total_contributions = 0 + contributions c, repos_contributed = 0 + 1,
          act_avatar_url = avatar_url c, act_html_url = html_url c\<rparr>"
  using records_of_empty [of "login c" cs]
  by (simp add: activity_of_def records_of_snoc)

lemma record_contributor_merged:
  "record_contributor (merged_activity cs) c = merged_activity (cs @ [c])"
proof -
  let ?upd = "\<lambda>(k, a). if k = login c
      then (k, a\<lparr>total_contributions := total_contributions a + contributions c,
                repos_contributed := repos_contributed a + 1\<rparr>)
      else (k, a)"
  have keys: "fst ` set (merged_activity cs) = login ` set cs"
    using arg_cong [OF merged_keys, of set cs] by simp
  show ?thesis
  proof (cases "login c \<in> login ` set cs")
    case True
    have "record_contributor (merged_activity cs) c = map ?upd (merged_activity cs)"
      using True by (simp add: record_contributor_def keys)
    also have "\<dots> = map (\<lambda>l. (l, activity_of l (cs @ [c]))) (unique (map login cs))"
      unfolding merged_activity_def map_map
      by (rule map_cong) (auto simp: activity_of_other activity_of_seen [OF True])
    also have "\<dots> = merged_activity (cs @ [c])"
      using True by (simp add: merged_activity_def unique_snoc)
    finally show ?thesis .
  next
    case False
    have "record_contributor (merged_activity cs) c
        = map ?upd (merged_activity cs)
          @ [?upd (login c, \<lparr>total_contributions = 0, repos_contributed = 0,
                             act_avatar_url = avatar_url c, act_html_url = html_url c\<rparr>)]"
      using False by (simp add: record_contributor_def keys)
    also have "map ?upd (merged_activity cs)
        = map (\<lambda>l. (l, activity_of l (cs @ [c]))) (unique (map login cs))"
    proof -
      have ne: "login c \<noteq> l" if "l \<in> set (unique (map login cs))" for l
        using that False by (metis image_eqI list.set_map set_unique)
      have "?upd (l, activity_of l cs) = (l, activity_of l (cs @ [c]))"
        if "l \<in> set (unique (map login cs))" for l
        using ne [OF that] by (simp add: activity_of_other)
      then show ?thesis
        unfolding merged_activity_def map_map comp_def
        by (intro map_cong) simp_all
    qed
    also have "?upd (login c, \<lparr>total_contributions = 0, repos_contributed = 0,
                             act_avatar_url = avatar_url c, act_html_url = html_url c\<rparr>)
        = (login c, activity_of (login c) (cs @ [c]))"
      by (simp add: activity_of_new [OF False])
    finally show ?thesis
      using False by (simp add: merged_activity_def unique_snoc)
  qed
qed

lemma foldl_record_contributor: "foldl record_contributor [] cs = merged_activity cs"
proof (induction cs rule: rev_induct)
  case Nil
  show ?case by (simp add: merged_activity_def)
next
  case (snoc c cs)
  then show ?case by (simp add: record_contributor_merged)
qed


lemma contributor_activity_merged:
  "contributor_activity contrib_data = merged_activity (all_records contrib_data)"
  by (simp add: contributor_activity_flat foldl_record_contributor all_records_def)

lemma py_take_nat [simp]: "py_take (int n) xs = take n xs"
  by (simp add: py_take_def)

lemma top_contributors_of_take:
  "top_contributors_of contrib_data
     = take 25 (map top_contributor_entry (sorted_contributors contrib_data))"
  using py_take_nat [of 25 "sorted_contributors contrib_data"]
  by (simp add: top_contributors_of_def take_map)

lemma length_records_concat:
  "length (records_of l (concat (map contributors data)))
     = sum_list (map (\<lambda>r. length (records_of l (contributors r))) data)"
  by (induction data) (simp_all add: records_of_def)

lemma length_records_distinct:
  "distinct (map login cs) \<Longrightarrow>
     length (records_of l cs) = (if l \<in> login ` set cs then 1 else 0)"
  by (induction cs) (auto simp: records_of_def)

lemma sum_list_indicator:
  "sum_list (map (\<lambda>x. if P x then 1 else 0) xs) = length (filter P xs)"
  by (induction xs) simp_all

lemma repos_count_distinct:
  assumes "one_record_per_contributor contrib_data"
  shows "length (records_of l (all_records contrib_data))
       = card {repo_full_name r | r. r \<in> set contrib_data \<and> l \<in> login ` set (contributors r)}"
proof -
  let ?P = "\<lambda>r. l \<in> login ` set (contributors r)"
  from assms have d: "distinct (map repo_full_name contrib_data)"
    and e: "\<And>r. r \<in> set contrib_data \<Longrightarrow> distinct (map login (contributors r))"
    by (auto simp: one_record_per_contributor_def list_all_iff)
  have "length (records_of l (all_records contrib_data))
      = sum_list (map (\<lambda>r. length (records_of l (contributors r))) contrib_data)"
    by (simp add: all_records_def length_records_concat)
  also have "\<dots> = sum_list (map (\<lambda>r. if ?P r then 1 else 0) contrib_data)"
    by (rule arg_cong [where f = sum_list], rule map_cong) (simp_all add: length_records_distinct e)
  also have "\<dots> = length (filter ?P contrib_data)"
    by (rule sum_list_indicator)
  also have "\<dots> = length (map repo_full_name (filter ?P contrib_data))"
    by simp
  also have "\<dots> = card (set (map repo_full_name (filter ?P contrib_data)))"
    using d by (simp only: distinct_card distinct_map_filter)
  also have "set (map repo_full_name (filter ?P contrib_data))
      = {repo_full_name r | r. r \<in> set contrib_data \<and> ?P r}"
    by auto
  finally show ?thesis .
qed

lemma generate_with_contrib:
  assumes "generate_summary_report fs repo_file (Some p) = Inr s"
      and "p \<noteq> []" and "contrib_files fs p = Some (Json contrib_data)" and "contrib_data \<noteq> []"
  obtains ca where "contribution_analysis_s s = Some ca"
      and "analyse_contributions contrib_data = Inr ca"
  using assms unfolding generate_summary_report_def
  by (auto simp: Let_def load_json_def split: sum.splits if_splits)

lemma analyse_contributions_Inr:
  assumes "analyse_contributions contrib_data = Inr ca"
  shows "top_contributors ca = top_contributors_of contrib_data"
    and "ca_total_contributors ca = sum_list (map total_contributors contrib_data)"
    and "repositories_analyzed ca = length contrib_data"
  using assms by (auto simp: analyse_contributions_def Let_def split: sum.splits)

lemma tc_of_entry [simp]:
  "tc_login (top_contributor_entry x) = fst x"
  "tc_total_contributions (top_contributor_entry x) = total_contributions (snd x)"
  "tc_repos_contributed (top_contributor_entry x) = repos_contributed (snd x)"
  by (simp_all add: top_contributor_entry_def split_beta)

lemma sorted_contributors_mset:
  "mset (sorted_contributors contrib_data) = mset (merged_activity (all_records contrib_data))"
  by (simp add: sorted_contributors_def contributor_activity_merged)

lemma sorted_contributors_entry:
  assumes "x \<in> set (sorted_contributors contrib_data)"
  shows "snd x = activity_of (fst x) (all_records contrib_data)"
  using assms
  by (auto simp: sorted_contributors_def contributor_activity_merged merged_activity_def)

lemma sorted_contributors_keys:
  "mset (map fst (sorted_contributors contrib_data)) = mset (unique (map login (all_records contrib_data)))"
proof -
  have "mset (map fst (sorted_contributors contrib_data))
      = mset (map fst (merged_activity (all_records contrib_data)))"
    by (simp only: mset_map sorted_contributors_mset)
  then show ?thesis by (simp only: merged_keys)
qed

lemma sorted_contributors_descending:
  "sorted_wrt (\<lambda>a b. total_contributions (snd b) \<le> total_contributions (snd a))
     (sorted_contributors contrib_data)"
  using sorted_reverse_descending
    [of "\<lambda>(l, a). total_contributions a" "contributor_activity contrib_data"]
  by (simp add: sorted_contributors_def split_beta)

lemma sorted_contributors_ties:
  "map fst (filter (\<lambda>x. total_contributions (snd x) = t) (sorted_contributors contrib_data))
     = filter (\<lambda>l. total_contributions (activity_of l (all_records contrib_data)) = t)
         (unique (map login (all_records contrib_data)))"
proof -
  have "filter (\<lambda>x. total_contributions (snd x) = t) (sorted_contributors contrib_data)
      = filter (\<lambda>x. total_contributions (snd x) = t) (merged_activity (all_records contrib_data))"
    using sorted_reverse_stable
      [of "\<lambda>(l, a). total_contributions a" t "contributor_activity contrib_data"]
    by (simp add: sorted_contributors_def split_beta contributor_activity_merged)
  then show ?thesis
    by (simp add: merged_activity_def filter_map comp_def)
qed




lemma top_contributors_ab:
  "map (\<lambda>e. (tc_login e, tc_total_contributions e, tc_repos_contributed e))
       (top_contributors_of contrib_ab) = [(''x'', 25, 2), (''y'', 25, 1)]"
  by (simp add: top_contributors_of_def sorted_contributors_def contributor_activity_def
      contrib_ab_def record_contributor_def mk_contributor_def sorted_reverse_def py_take_def
      top_contributor_entry_def)

lemma generate_ab:
  "generate_summary_report (files_of two_orgs (Some contrib_ab)) ''repos.json'' (Some ''contrib.json'')
     = Inr report_ab"
  by (simp add: generate_summary_report_def two_orgs_nonempty load_json_def files_of_def
      analyse_contributions_def py_truediv_def report_ab_def contrib_ab_def)

lemma wf_ab: "one_record_per_contributor contrib_ab"
  by (simp add: one_record_per_contributor_def contrib_ab_def mk_contributor_def)


section \<open>Collectors: totals and quota\<close>

lemma collect_repository_contributors_capped:
  "fst (collect_repository_contributors api repo_name max_contributors) = Some c \<Longrightarrow>
     total_contributors c = int (length (contributors c))"
  by (auto simp: collect_repository_contributors_def Let_def split: sum.splits)

text \<open>
  C3. The claim holds for the scheduled pipeline's entry (\<open>dag_repo_contributions\<close>), and
  \<open>collect_repository_contributors\<close> breaks it: for a repository with three contributors
  and \<open>max_contributors = 2\<close> it records \<open>total_contributors = 2\<close>, the length of the cut
  list, where the pipeline's entry records 3; the summary then adds up the cut lengths
  (2 + 2 for two such repositories).
\<close>

theorem total_contributors_is_capped_length:
  "get_contributors api_ex ''o/A'' = Inr three_users
   \<and> length three_users = 3
   \<and> map_option total_contributors (fst (collect_repository_contributors api_ex ''o/A'' 2)) = Some 2
   \<and> map_option (\<lambda>c. length (contributors c)) (fst (collect_repository_contributors api_ex ''o/A'' 2)) = Some 2
   \<and> total_contributors (dag_repo_contributions api_ex (mk_repo ''o'' ''A'' 1 1 None None)) = 3
   \<and> map_sum id ca_total_contributors
        (analyse_contributions (entries_of api_ex 2 [mk_repo ''o'' ''A'' 1 1 None None, mk_repo ''o'' ''B'' 1 1 None None]))
       = Inr 4"
  by (simp add: api_ex_def three_users_def collect_repository_contributors_def py_take_def
      dag_repo_contributions_def get_repository_contributors_def mk_repo_def
      analyse_contributions_def entries_of_def py_truediv_def)

text \<open>
  C5. After the tenth repository the contributor collector requests the quota and prints
  it, and with 5 of 5000 requests remaining it goes on to fetch the eleventh repository
  with no sleep in between. \<open>check_rate_limit\<close>, which does sleep on such a quota, is not
  called by the loop.
\<close>

theorem low_quota_checkpoint_without_sleep:
  "get_rate_limit api_ex (AfterRepo 10) = Inr \<lparr>remaining = 5, limit = 5000, reset = 3600\<rparr>
   \<and> map_sum id snd (collect_contributions api_ex eleven_repos 20 30)
       = Inr [GetContributors ''o/r01'', GetContributors ''o/r02'', GetContributors ''o/r03'',
              GetContributors ''o/r04'', GetContributors ''o/r05'', GetContributors ''o/r06'',
              GetContributors ''o/r07'', GetContributors ''o/r08'', GetContributors ''o/r09'',
              GetContributors ''o/r10'', GetRateLimit (AfterRepo 10), PrintRateLimit 5 5000,
              GetContributors ''o/r11'']
   \<and> check_rate_limit api_ex 0
       = Inr [GetRateLimit OnDemand, PrintRateLimit 5 5000, LogWarningWait 3660, TimeSleep 3660]"
  by (simp add: api_ex_def collect_contributions_def select_top_repos_def eleven_repos_def
      mk_repo_def sorted_reverse_def py_take_def collect_repository_contributors_def
      check_rate_limit_def Let_def)

section \<open>Collectors: failures of single entities\<close>

lemma collect_all_organizations_append:
  "fst (collect_all_organizations api max_repos (orgs1 @ orgs2))
     = fst (collect_all_organizations api max_repos orgs1)
       @ fst (collect_all_organizations api max_repos orgs2)"
  by (induction orgs1) (simp_all add: split_beta)

lemma collect_all_organizations_events:
  "snd (collect_all_organizations api max_repos (orgs1 @ orgs2))
     = snd (collect_all_organizations api max_repos orgs1)
       @ snd (collect_all_organizations api max_repos orgs2)"
  by (induction orgs1) (simp_all add: split_beta)

lemma collect_organization_repos_failed:
  "snd (fetch_organization api org max_repos) = Inl e \<Longrightarrow>
     collect_organization_repos api org max_repos
       = ([], fst (fetch_organization api org max_repos) @ [PrintError org e])"
  by (simp add: collect_organization_repos_def split_beta)

lemma contribution_loop_total:
  assumes "\<forall>cp. \<exists>r. get_rate_limit api cp = Inr r"
  shows "\<exists>ev. contribution_loop api max_contributors i rs
              = Inr (entries_of api max_contributors rs, ev)
            \<and> set ev \<supseteq> (\<Union>r \<in> set rs.
                  set (snd (collect_repository_contributors api (full_name r) max_contributors)))"
proof (induction rs arbitrary: i)
  case Nil
  show ?case by (simp add: entries_of_def)
next
  case (Cons repo rs)
  from Cons [of "Suc i"] obtain ev where
    ev: "contribution_loop api max_contributors (Suc i) rs = Inr (entries_of api max_contributors rs, ev)"
      "set ev \<supseteq> (\<Union>r \<in> set rs.
          set (snd (collect_repository_contributors api (full_name r) max_contributors)))"
    by blast
  from assms obtain r where r: "get_rate_limit api (AfterRepo i) = Inr r"
    by blast
  show ?case
    using ev r by (auto simp: entries_of_def split_beta Let_def)
qed

lemma entries_of_append:
  "entries_of api m (rs1 @ rs2) = entries_of api m rs1 @ entries_of api m rs2"
  by (simp add: entries_of_def)

lemma entries_of_failed:
  "get_contributors api (full_name repo) = Inl e \<Longrightarrow> entries_of api m [repo] = []"
  by (simp add: entries_of_def collect_repository_contributors_def)

text \<open>
  C8. When fetching one organization raises, \<open>collect_organization_repos\<close> prints the
  error and returns no records, and the records collected over the whole list are those
  collected over the list without that organization. When fetching the contributors of
  one repository raises, the repository yields no entry, the error is printed, and the
  loop (whose quota requests are answered) returns the entries it returns for the list
  without that repository.
\<close>

theorem per_entity_failure_is_skipped:
  "(snd (fetch_organization api org max_repos) = Inl e \<longrightarrow>
       collect_organization_repos api org max_repos
         = ([], fst (fetch_organization api org max_repos) @ [PrintError org e])
     \<and> fst (collect_all_organizations api max_repos (orgs1 @ org # orgs2))
         = fst (collect_all_organizations api max_repos (orgs1 @ orgs2))
     \<and> PrintError org e \<in> set (snd (collect_all_organizations api max_repos (orgs1 @ org # orgs2))))
   \<and> ((\<forall>cp. \<exists>r. get_rate_limit api cp = Inr r)
        \<and> get_contributors api (full_name repo) = Inl e' \<longrightarrow>
       fst (collect_repository_contributors api (full_name repo) max_contributors) = None
     \<and> (\<exists>contribution_data ev ev'.
            contribution_loop api max_contributors 1 (rs1 @ repo # rs2) = Inr (contribution_data, ev)
          \<and> contribution_loop api max_contributors 1 (rs1 @ rs2) = Inr (contribution_data, ev')
          \<and> PrintError (full_name repo) e' \<in> set ev))"
proof (intro conjI impI)
  assume f: "snd (fetch_organization api org max_repos) = Inl e"
  show c: "collect_organization_repos api org max_repos
      = ([], fst (fetch_organization api org max_repos) @ [PrintError org e])"
    using f by (rule collect_organization_repos_failed)
  show "fst (collect_all_organizations api max_repos (orgs1 @ org # orgs2))
      = fst (collect_all_organizations api max_repos (orgs1 @ orgs2))"
    by (simp add: collect_all_organizations_append c split_beta)
  show "PrintError org e \<in> set (snd (collect_all_organizations api max_repos (orgs1 @ org # orgs2)))"
    by (simp add: collect_all_organizations_events c split_beta)
next
  assume h: "(\<forall>cp. \<exists>r. get_rate_limit api cp = Inr r)
      \<and> get_contributors api (full_name repo) = Inl e'"
  then have ok: "\<forall>cp. \<exists>r. get_rate_limit api cp = Inr r"
    and f: "get_contributors api (full_name repo) = Inl e'"
    by blast+
  show "fst (collect_repository_contributors api (full_name repo) max_contributors) = None"
    using f by (simp add: collect_repository_contributors_def)
  from contribution_loop_total [OF ok, of max_contributors 1 "rs1 @ repo # rs2"]
  obtain ev where ev: "contribution_loop api max_contributors 1 (rs1 @ repo # rs2)
        = Inr (entries_of api max_contributors (rs1 @ repo # rs2), ev)"
      "set ev \<supseteq> (\<Union>r \<in> set (rs1 @ repo # rs2).
          set (snd (collect_repository_contributors api (full_name r) max_contributors)))"
    by blast
  from contribution_loop_total [OF ok, of max_contributors 1 "rs1 @ rs2"]
  obtain ev' where ev': "contribution_loop api max_contributors 1 (rs1 @ rs2)
        = Inr (entries_of api max_contributors (rs1 @ rs2), ev')"
    by blast
  have same: "entries_of api max_contributors (rs1 @ repo # rs2)
      = entries_of api max_contributors (rs1 @ rs2)"
    using entries_of_failed [OF f, of max_contributors]
      entries_of_append [of api max_contributors rs1 "[repo] @ rs2"]
      entries_of_append [of api max_contributors "[repo]" rs2]
      entries_of_append [of api max_contributors rs1 rs2]
    by simp
  have "PrintError (full_name repo) e'
      \<in> set (snd (collect_repository_contributors api (full_name repo) max_contributors))"
    using f by (simp add: collect_repository_contributors_def)
  with ev(2) have "PrintError (full_name repo) e' \<in> set ev"
    by auto
  with ev(1) ev' same
  show "\<exists>contribution_data ev ev'.
            contribution_loop api max_contributors 1 (rs1 @ repo # rs2) = Inr (contribution_data, ev)
          \<and> contribution_loop api max_contributors 1 (rs1 @ rs2) = Inr (contribution_data, ev')
          \<and> PrintError (full_name repo) e' \<in> set ev"
    by auto
qed


theorem per_entity_failure_is_skipped_witness:
  "snd (fetch_organization api_ex ''nope'' 50) = Inl (GithubException ''404'')
   \<and> collect_organization_repos api_ex ''nope'' 50
       = ([], [GetOrganizationRepos ''nope'', PrintError ''nope'' (GithubException ''404'')])
   \<and> fst (collect_all_organizations api_ex 50 ([''apache''] @ ''nope'' # [''apache'']))
       = fst (collect_all_organizations api_ex 50 ([''apache''] @ [''apache'']))
   \<and> (\<forall>cp. \<exists>r. get_rate_limit api_ex cp = Inr r)
   \<and> get_contributors api_ex (full_name (mk_repo ''o'' ''broken'' 5 0 None None))
       = Inl (GithubException ''404'')
   \<and> (\<exists>contribution_data ev ev'.
          contribution_loop api_ex 20 1
            ([mk_repo ''o'' ''r01'' 11 0 None None] @ mk_repo ''o'' ''broken'' 5 0 None None
               # [mk_repo ''o'' ''r02'' 10 0 None None]) = Inr (contribution_data, ev)
        \<and> contribution_loop api_ex 20 1
            ([mk_repo ''o'' ''r01'' 11 0 None None] @ [mk_repo ''o'' ''r02'' 10 0 None None])
            = Inr (contribution_data, ev')
        \<and> PrintError (full_name (mk_repo ''o'' ''broken'' 5 0 None None)) (GithubException ''404'')
            \<in> set ev)"
proof -
  have a: "snd (fetch_organization api_ex ''nope'' 50) = Inl (GithubException ''404'')"
    by (simp add: fetch_organization_def api_ex_def)
  have b: "fst (fetch_organization api_ex ''nope'' 50) = [GetOrganizationRepos ''nope'']"
    by (simp add: fetch_organization_def api_ex_def)
  have c: "\<forall>cp. \<exists>r. get_rate_limit api_ex cp = Inr r"
    by (simp add: api_ex_def)
  have d: "get_contributors api_ex (full_name (mk_repo ''o'' ''broken'' 5 0 None None))
      = Inl (GithubException ''404'')"
    by (simp add: api_ex_def mk_repo_def)
  note T = per_entity_failure_is_skipped
      [of api_ex "''nope''" 50 "GithubException ''404''" "[''apache'']" "[''apache'']"
          "mk_repo ''o'' ''broken'' 5 0 None None" "GithubException ''404''" 20
          "[mk_repo ''o'' ''r01'' 11 0 None None]" "[mk_repo ''o'' ''r02'' 10 0 None None]"]
  from T a have 1: "collect_organization_repos api_ex ''nope'' 50
        = ([], fst (fetch_organization api_ex ''nope'' 50)
                 @ [PrintError ''nope'' (GithubException ''404'')])"
    and 2: "fst (collect_all_organizations api_ex 50 ([''apache''] @ ''nope'' # [''apache'']))
        = fst (collect_all_organizations api_ex 50 ([''apache''] @ [''apache'']))"
    by blast+
  from 1 have 1: "collect_organization_repos api_ex ''nope'' 50
       = ([], [GetOrganizationRepos ''nope'', PrintError ''nope'' (GithubException ''404'')])"
    by (simp only: b append.simps)
  from T c d have 3: "\<exists>contribution_data ev ev'.
          contribution_loop api_ex 20 1
            ([mk_repo ''o'' ''r01'' 11 0 None None] @ mk_repo ''o'' ''broken'' 5 0 None None
               # [mk_repo ''o'' ''r02'' 10 0 None None]) = Inr (contribution_data, ev)
        \<and> contribution_loop api_ex 20 1
            ([mk_repo ''o'' ''r01'' 11 0 None None] @ [mk_repo ''o'' ''r02'' 10 0 None None])
            = Inr (contribution_data, ev')
        \<and> PrintError (full_name (mk_repo ''o'' ''broken'' 5 0 None None)) (GithubException ''404'')
            \<in> set ev"
    by blast
  from a 1 2 c d 3 show ?thesis
    by (intro conjI)
qed

section \<open>Retention sweeper\<close>

lemma sweep_step:
  "sweep current_date (p # paths) dir
     = (if too_old current_date p then sweep current_date paths (removeAll p dir)
        else sweep current_date paths dir)"
  by (simp add: too_old_def split: sum.splits)

lemma sweep_filter:
  "sweep current_date paths dir
     = filter (\<lambda>nm. \<not> (nm \<in> set paths \<and> too_old current_date nm)) dir"
proof (induction paths arbitrary: dir)
  case Nil
  show ?case by simp
next
  case (Cons p paths)
  show ?case
  proof (cases "too_old current_date p")
    case True
    have "sweep current_date (p # paths) dir = sweep current_date paths (removeAll p dir)"
      using True by (simp only: sweep_step if_True)
    also have "\<dots> = filter (\<lambda>nm. \<not> (nm \<in> set paths \<and> too_old current_date nm))
                         (filter (\<lambda>nm. nm \<noteq> p) dir)"
      by (simp only: Cons removeAll_filter_not_eq) (metis (mono_tags, lifting) filter_cong)
    also have "\<dots> = filter (\<lambda>nm. \<not> (nm \<in> set (p # paths) \<and> too_old current_date nm)) dir"
      using True by (auto intro: filter_cong)
    finally show ?thesis .
  next
    case False
    have "sweep current_date (p # paths) dir = sweep current_date paths dir"
      using False by (simp only: sweep_step if_False)
    also have "\<dots> = filter (\<lambda>nm. \<not> (nm \<in> set (p # paths) \<and> too_old current_date nm)) dir"
      using False by (auto simp: Cons intro: filter_cong)
    finally show ?thesis .
  qed
qed


lemma strptime_ex: "strptime ''2024-03-05'' = Inr \<lparr>year = 2024, month = 3, day = 5\<rparr>"
  by (simp add: strptime_def is_digit_def digit_def month_directive_def day_directive_def
      days_in_month_def)


lemma date_str_ex:
  "map date_str output_dir_ex
     = [''2024-03-04'', ''2024-02-29'', ''2024-02-26'', ''2024-02-24'', ''notes'',
        ''2024-02-30'', ''2020-01-01.csv'']"
  by (simp add: output_dir_ex_def date_str_def last_segment_def)

lemma glob_ex:
  "map glob_json output_dir_ex = [True, True, True, True, True, True, False]"
  by (simp add: output_dir_ex_def glob_json_def)

lemma toordinal_ex:
  "toordinal \<lparr>year = 2024, month = 3, day = 5\<rparr> = 738950"
  "toordinal \<lparr>year = 2024, month = 3, day = 4\<rparr> = 738949"
  "toordinal \<lparr>year = 2024, month = 2, day = 29\<rparr> = 738945"
  "toordinal \<lparr>year = 2024, month = 2, day = 26\<rparr> = 738942"
  "toordinal \<lparr>year = 2024, month = 2, day = 24\<rparr> = 738940"
  by (simp_all add: toordinal_def days_before_year_def days_before_month_def days_in_month_def
      is_leap_def upt_conv_Cons)


lemma too_old_ex:
  "map (too_old \<lparr>year = 2024, month = 3, day = 5\<rparr>) output_dir_ex
     = [False, False, True, True, False, False, False]"
  by (simp add: output_dir_ex_def too_old_def date_str_def last_segment_def
      strptime_def is_digit_def digit_def month_directive_def day_directive_def
      days_in_month_def is_leap_def days_between_def
      toordinal_def days_before_year_def days_before_month_def upt_conv_Cons)



section \<open>Report renderer\<close>

lemma report_without_contributors:
  "generate_summary_report fs repo_file None = Inr s \<Longrightarrow> contribution_analysis_s s = None"
  by (auto simp: generate_summary_report_def base_summary_def Let_def split: sum.splits if_splits)

lemma Template_fails:
  "Template default_filters template_str = Inl (TemplateAssertionError ''tojsonfilter'')"
  by (simp add: Template_def template_str_def summary_path_def default_filters_def)

text \<open>
  C7. Without contributor input the report has no \<open>contribution_analysis\<close>, as the claim
  says. Rendering it does throw, though, whatever Jinja2's rendering would do with the
  absent section: the template applies a filter \<open>tojsonfilter\<close> outside the \<open>{% if %}\<close>,
  the default environment has no filter of that name (its JSON filter is \<open>tojson\<close>), and
  \<open>Template(template_str)\<close> raises \<open>TemplateAssertionError\<close> before anything is rendered.
\<close>

theorem dashboard_template_does_not_compile:
  "generate_summary_report (files_of two_orgs None) ''repos.json'' None = Inr (base_summary two_orgs)
   \<and> contribution_analysis_s (base_summary two_orgs) = None
   \<and> (\<forall>render. create_dashboard_html render (base_summary two_orgs)
          = Inl (TemplateAssertionError ''tojsonfilter''))"
  by (simp add: gen_no_contrib two_orgs_nonempty create_dashboard_html_def Template_fails)
     (simp add: base_summary_def)

end
